theory Spec2Isabelle
  imports Complex_Main "HOL-Library.AList" "HOL-Library.Log_Nat"
begin

section \<open>Data model of \<^verbatim>\<open>src/pages/index.vue\<close>\<close>

text \<open>
  Indices are naturals. An object used as a dictionary with numeric keys
  (\<^verbatim>\<open>Record<number, T>\<close>) is an association list; a JavaScript object holds each key
  once, which is the predicate \<open>wf_assignments\<close> below. The order of the pairs is
  representation only.

  Amounts are modelled at two levels. In the sections up to the receipt edits and the
  allocation, a JavaScript number is an exact real (no rounding error, no infinities;
  not-a-number is a separate value where the code tests for it): this is the arithmetic
  of the properties that are stated in exact arithmetic and of those that do not depend
  on rounding (names, indices, zero amounts, equal states). The section on double
  precision repeats the allocation with every operation rounded as IEEE-754 prescribes;
  the cents of the settlement are settled there.

  Records cannot share field names, so the fields of the result objects carry a prefix:
  \<open>pt_\<close> for an entry of \<^verbatim>\<open>participantTotals\<close>, \<open>pr_\<close> for a \<^verbatim>\<open>ParticipantResult\<close>,
  \<open>ri_\<close> for an entry of its \<^verbatim>\<open>items\<close>, \<open>sr_\<close> for \<^verbatim>\<open>SplitResults\<close>; the receipt's
  \<^verbatim>\<open>total\<close> is \<open>receipt_total\<close>.
\<close>

record ReceiptItem =
  name :: string
  quantity :: real
  price :: real

record Receipt =
  items :: "ReceiptItem list"
  tax :: real
  receipt_total :: real

record ParticipantTotal =
  pt_name :: string
  pt_total :: real
  pt_itemsTotal :: real
  pt_taxPortion :: real

text \<open>
  The label of a settlement item is the template string \<^verbatim>\<open>`${item.name} (x${quantity})`\<close>;
  the model keeps its two components instead of printing the number.
\<close>

record ResultItem =
  ri_name :: string
  ri_quantity :: real
  ri_cost :: real
  ri_sharedWith :: nat

record ParticipantResult =
  pr_name :: string
  pr_total :: real
  pr_itemsTotal :: real
  pr_taxPortion :: real
  pr_items :: "ResultItem list"

record SplitResults =
  sr_participants :: "ParticipantResult list"
  originalTotal :: real
  splitTotal :: real
  sr_subtotal :: real
  sr_tax :: real

datatype step = Landing | Upload | Participants | Review | Assign | Results

type_synonym assignments = "(nat \<times> real) list"

type_synonym item_assignments = "(nat \<times> assignments) list"

record state =
  currentStep :: step
  receipt :: "Receipt option"
  participants :: "string list"
  itemAssignments :: item_assignments
  splitResults :: "SplitResults option"
  error :: "string option"
  selectedParticipantIndex :: "nat option"


text \<open>A JavaScript number (or \<^verbatim>\<open>undefined\<close>) read as a condition: \<^verbatim>\<open>!v\<close>.\<close>

definition falsy :: "real option \<Rightarrow> bool" where
  "falsy v \<longleftrightarrow> (case v of None \<Rightarrow> True | Some q \<Rightarrow> q = 0)"

text \<open>\<^verbatim>\<open>assignments[pIndex] || 0\<close>\<close>

definition qtyOr0 :: "assignments \<Rightarrow> nat \<Rightarrow> real" where
  "qtyOr0 a pIndex = (case map_of a pIndex of None \<Rightarrow> 0 | Some q \<Rightarrow> q)"

text \<open>\<^verbatim>\<open>itemAssignments.value[itemIndex] || {}\<close>\<close>

definition assignmentsOr :: "item_assignments \<Rightarrow> nat \<Rightarrow> assignments" where
  "assignmentsOr ia itemIndex = (case map_of ia itemIndex of None \<Rightarrow> [] | Some a \<Rightarrow> a)"

text \<open>\<^verbatim>\<open>if (!itemAssignments.value[itemIndex]) itemAssignments.value[itemIndex] = {}\<close>\<close>

definition ensureItem :: "nat \<Rightarrow> item_assignments \<Rightarrow> item_assignments" where
  "ensureItem itemIndex ia =
     (case map_of ia itemIndex of None \<Rightarrow> AList.update itemIndex [] ia | Some a \<Rightarrow> ia)"

section \<open>Participants\<close>

definition addParticipant :: "state \<Rightarrow> state" where
  "addParticipant st = st\<lparr>participants := participants st @ ['''']\<rparr>"

text \<open>
  The inner loop of \<^verbatim>\<open>removeParticipant\<close>: a fresh object is filled from the keys of the
  old one, the removed index skipped and the higher ones moved down.
\<close>

definition reindexStep :: "nat \<Rightarrow> assignments \<Rightarrow> assignments \<Rightarrow> nat \<Rightarrow> assignments" where
  "reindexStep index a newAssignments pIndex =
     (if pIndex \<noteq> index then
        (let newPIndex = (if pIndex > index then pIndex - 1 else pIndex) in
         case map_of a pIndex of
           None \<Rightarrow> newAssignments
         | Some q \<Rightarrow> AList.update newPIndex q newAssignments)
      else newAssignments)"

definition reindex :: "nat \<Rightarrow> assignments \<Rightarrow> assignments" where
  "reindex index a = foldl (reindexStep index a) [] (map fst a)"

definition removeStep :: "nat \<Rightarrow> item_assignments \<Rightarrow> nat \<Rightarrow> item_assignments" where
  "removeStep index ia itemIndex =
     (case map_of ia itemIndex of
        None \<Rightarrow> ia
      | Some a \<Rightarrow> AList.update itemIndex (reindex index a) ia)"

text \<open>\<^verbatim>\<open>participants.value.splice(index, 1)\<close> removes nothing when the index is past the end.\<close>

definition splice1 :: "nat \<Rightarrow> 'a list \<Rightarrow> 'a list" where
  "splice1 index xs = take index xs @ drop (Suc index) xs"

definition removeParticipant :: "nat \<Rightarrow> state \<Rightarrow> state" where
  "removeParticipant index st =
     (if length (participants st) > 1 then
        st\<lparr>participants := splice1 index (participants st),
           itemAssignments :=
             foldl (removeStep index) (itemAssignments st) (map fst (itemAssignments st))\<rparr>
      else st)"

section \<open>Assignment operations\<close>

definition selectParticipant :: "nat \<Rightarrow> state \<Rightarrow> state" where
  "selectParticipant participantIndex st = st\<lparr>selectedParticipantIndex := Some participantIndex\<rparr>"

definition assignItemToSelected :: "nat \<Rightarrow> state \<Rightarrow> state" where
  "assignItemToSelected itemIndex st =
     (case selectedParticipantIndex st of
        None \<Rightarrow> st
      | Some participantIndex \<Rightarrow>
          (let ia = ensureItem itemIndex (itemAssignments st);
               a = assignmentsOr ia itemIndex
           in if falsy (map_of a participantIndex)
              then st\<lparr>itemAssignments :=
                        AList.update itemIndex (AList.update participantIndex 1 a) ia\<rparr>
              else st\<lparr>itemAssignments := ia\<rparr>))"

definition increaseItemQuantity :: "nat \<Rightarrow> nat \<Rightarrow> state \<Rightarrow> state" where
  "increaseItemQuantity itemIndex participantIndex st =
     (let ia = ensureItem itemIndex (itemAssignments st);
          a = assignmentsOr ia itemIndex;
          currentQty = qtyOr0 a participantIndex
      in st\<lparr>itemAssignments :=
               AList.update itemIndex (AList.update participantIndex (currentQty + 1) a) ia\<rparr>)"

definition decreaseItemQuantity :: "nat \<Rightarrow> nat \<Rightarrow> state \<Rightarrow> state" where
  "decreaseItemQuantity itemIndex participantIndex st =
     (case map_of (itemAssignments st) itemIndex of
        None \<Rightarrow> st
      | Some a \<Rightarrow>
          (let currentQty = qtyOr0 a participantIndex in
           if currentQty > 1 then
             st\<lparr>itemAssignments :=
                  AList.update itemIndex (AList.update participantIndex (currentQty - 1) a)
                    (itemAssignments st)\<rparr>
           else if currentQty = 1 then
             st\<lparr>itemAssignments :=
                  AList.update itemIndex (AList.delete participantIndex a) (itemAssignments st)\<rparr>
           else st))"

definition removeAssignment :: "nat \<Rightarrow> nat \<Rightarrow> state \<Rightarrow> state" where
  "removeAssignment itemIndex participantIndex st =
     (case map_of (itemAssignments st) itemIndex of
        None \<Rightarrow> st
      | Some a \<Rightarrow>
          st\<lparr>itemAssignments :=
               AList.update itemIndex (AList.delete participantIndex a) (itemAssignments st)\<rparr>)"

section \<open>Receipt edits\<close>

text \<open>
  The setters are called with \<^verbatim>\<open>Number(input.value)\<close> and parse it again with
  \<^verbatim>\<open>parseFloat(String(value))\<close>. On a number that round trip gives the number back and on
  not-a-number it gives not-a-number, so the parsed value is the argument.
\<close>

datatype jsnumber = NaN | Num real

definition parseFloatString :: "jsnumber \<Rightarrow> jsnumber" where
  "parseFloatString v = v"

text \<open>\<^verbatim>\<open>items.reduce((sum, item) => sum + item.price * item.quantity, 0)\<close>\<close>

definition itemsSubtotal :: "ReceiptItem list \<Rightarrow> real" where
  "itemsSubtotal its = foldl (\<lambda>sum item. sum + price item * quantity item) 0 its"

definition recalculateTotal :: "state \<Rightarrow> state" where
  "recalculateTotal st =
     (case receipt st of
        None \<Rightarrow> st
      | Some r \<Rightarrow> st\<lparr>receipt := Some (r\<lparr>receipt_total := itemsSubtotal (items r) + tax r\<rparr>)\<rparr>)"

definition updateItemQuantity :: "nat \<Rightarrow> jsnumber \<Rightarrow> state \<Rightarrow> state" where
  "updateItemQuantity index v st =
     (case receipt st of
        None \<Rightarrow> st
      | Some r \<Rightarrow>
          if index < length (items r) then
            (case parseFloatString v of
               NaN \<Rightarrow> st
             | Num parsedQuantity \<Rightarrow>
                 if parsedQuantity > 0 then
                   recalculateTotal
                     (st\<lparr>receipt := Some (r\<lparr>items :=
                        (items r)[index := (items r ! index)\<lparr>quantity := parsedQuantity\<rparr>]\<rparr>)\<rparr>)
                 else st)
          else st)"

definition updateItemPrice :: "nat \<Rightarrow> jsnumber \<Rightarrow> state \<Rightarrow> state" where
  "updateItemPrice index v st =
     (case receipt st of
        None \<Rightarrow> st
      | Some r \<Rightarrow>
          if index < length (items r) then
            (case parseFloatString v of
               NaN \<Rightarrow> st
             | Num parsedPrice \<Rightarrow>
                 if parsedPrice \<ge> 0 then
                   recalculateTotal
                     (st\<lparr>receipt := Some (r\<lparr>items :=
                        (items r)[index := (items r ! index)\<lparr>price := parsedPrice\<rparr>]\<rparr>)\<rparr>)
                 else st)
          else st)"

definition updateTax :: "jsnumber \<Rightarrow> state \<Rightarrow> state" where
  "updateTax v st =
     (case receipt st of
        None \<Rightarrow> st
      | Some r \<Rightarrow>
          (case parseFloatString v of
             NaN \<Rightarrow> st
           | Num parsedTax \<Rightarrow>
               if parsedTax \<ge> 0 then recalculateTotal (st\<lparr>receipt := Some (r\<lparr>tax := parsedTax\<rparr>)\<rparr>)
               else st))"

section \<open>Allocation\<close>

text \<open>
  \<^verbatim>\<open>String.prototype.trim\<close> strips white space at both ends. Characters are 8-bit here, so
  the white space is tab, line feed, vertical tab, form feed, carriage return, space and
  the no-break space.
\<close>

definition isSpace :: "char \<Rightarrow> bool" where
  "isSpace c \<longleftrightarrow>
     c \<in> set [CHR 0x09, CHR 0x0A, CHR 0x0B, CHR 0x0C, CHR 0x0D, CHR 0x20, CHR 0xA0]"

definition trim :: "string \<Rightarrow> string" where
  "trim s = rev (dropWhile isSpace (rev (dropWhile isSpace s)))"

text \<open>\<^verbatim>\<open>Object.values(assignments).reduce((sum, qty) => sum + qty, 0)\<close>\<close>

definition totalAssignedQty :: "assignments \<Rightarrow> real" where
  "totalAssignedQty a = foldl (\<lambda>sum qty. sum + qty) 0 (map snd a)"

text \<open>
  The body of the \<^verbatim>\<open>forEach\<close> over the items in \<^verbatim>\<open>participantTotals\<close>, for participant
  \<open>pIndex\<close>: the running \<^verbatim>\<open>itemsTotal\<close> before the item, and after it.
\<close>

definition previewStep :: "item_assignments \<Rightarrow> nat \<Rightarrow> real \<Rightarrow> nat \<times> ReceiptItem \<Rightarrow> real" where
  "previewStep ia pIndex itemsTotal = (\<lambda>(itemIndex, item).
     (let a = assignmentsOr ia itemIndex;
          q = qtyOr0 a pIndex
      in if q > 0 then
           (let totalItemCost = price item * quantity item;
                itemCost =
                  (if totalAssignedQty a > 0 then (q / totalAssignedQty a) * totalItemCost else 0)
            in itemsTotal + itemCost)
         else itemsTotal))"

text \<open>\<^verbatim>\<open>subtotal > 0 ? (itemsTotal / subtotal) * (receipt.value?.tax || 0) : 0\<close>\<close>

definition taxShare :: "real \<Rightarrow> real \<Rightarrow> real \<Rightarrow> real" where
  "taxShare subtotal itemsTotal t = (if subtotal > 0 then (itemsTotal / subtotal) * t else 0)"

definition participantTotals :: "state \<Rightarrow> ParticipantTotal list" where
  "participantTotals st =
     (case receipt st of
        None \<Rightarrow> []
      | Some r \<Rightarrow>
          (let subtotal = itemsSubtotal (items r) in
           map (\<lambda>(pIndex, nm).
                  (let itemsTotal =
                         foldl (previewStep (itemAssignments st) pIndex) 0 (enumerate 0 (items r));
                       taxPortion = taxShare subtotal itemsTotal (tax r);
                       total = itemsTotal + taxPortion
                   in \<lparr>pt_name = trim nm, pt_total = total, pt_itemsTotal = itemsTotal,
                       pt_taxPortion = taxPortion\<rparr>))
               (enumerate 0 (participants st))))"

text \<open>\<^verbatim>\<open>Math.round\<close> rounds to the nearest integer, a tie towards plus infinity.\<close>

definition Math_round :: "real \<Rightarrow> int" where
  "Math_round x = \<lfloor>x + 1 / 2\<rfloor>"

text \<open>\<^verbatim>\<open>Math.round(x * 100) / 100\<close>\<close>

definition round2 :: "real \<Rightarrow> real" where
  "round2 x = real_of_int (Math_round (x * 100)) / 100"

text \<open>
  The body of the \<^verbatim>\<open>forEach\<close> over the items in \<^verbatim>\<open>calculateSplit\<close>: the pair of the
  running \<^verbatim>\<open>itemsTotal\<close> and the \<^verbatim>\<open>items\<close> pushed so far.
\<close>

definition splitStep ::
  "item_assignments \<Rightarrow> nat \<Rightarrow> real \<times> ResultItem list \<Rightarrow> nat \<times> ReceiptItem
     \<Rightarrow> real \<times> ResultItem list" where
  "splitStep ia pIndex acc = (\<lambda>(itemIndex, item).
     (let a = assignmentsOr ia itemIndex;
          q = qtyOr0 a pIndex
      in if q > 0 then
           (let sharedWith = length a;
                totalItemCost = price item * quantity item;
                itemCost =
                  (if totalAssignedQty a > 0 then (q / totalAssignedQty a) * totalItemCost else 0)
            in (fst acc + itemCost,
                snd acc @ [\<lparr>ri_name = name item, ri_quantity = q, ri_cost = itemCost,
                             ri_sharedWith = sharedWith\<rparr>]))
         else acc))"

definition goToStep :: "step \<Rightarrow> state \<Rightarrow> state" where
  "goToStep s st = st\<lparr>currentStep := s, error := None\<rparr>"

text \<open>\<^verbatim>\<open>participants.value.filter((p) => p.trim())\<close>\<close>

definition validParticipants :: "string list \<Rightarrow> string list" where
  "validParticipants ps = filter (\<lambda>p. trim p \<noteq> []) ps"

text \<open>The function mapped over \<^verbatim>\<open>validParticipants\<close> in \<^verbatim>\<open>calculateSplit\<close>.\<close>

definition splitEntry :: "item_assignments \<Rightarrow> Receipt \<Rightarrow> nat \<times> string \<Rightarrow> ParticipantResult" where
  "splitEntry ia r = (\<lambda>(pIndex, nm).
     (let subtotal = itemsSubtotal (items r);
          acc = foldl (splitStep ia pIndex) (0, []) (enumerate 0 (items r));
          itemsTotal = fst acc;
          taxPortion = taxShare subtotal itemsTotal (tax r);
          total = itemsTotal + taxPortion
      in \<lparr>pr_name = trim nm, pr_total = round2 total, pr_itemsTotal = round2 itemsTotal,
          pr_taxPortion = round2 taxPortion, pr_items = snd acc\<rparr>))"

definition calculateSplit :: "state \<Rightarrow> state" where
  "calculateSplit st =
     (case receipt st of
        None \<Rightarrow> st
      | Some r \<Rightarrow>
          (let valid = validParticipants (participants st) in
           if length valid = 0 then st\<lparr>error := Some ''Please add at least one participant''\<rparr>
           else
             (let subtotal = itemsSubtotal (items r);
                  results = map (splitEntry (itemAssignments st) r) (enumerate 0 valid)
              in goToStep Results
                   (st\<lparr>splitResults := Some
                      \<lparr>sr_participants = results,
                       originalTotal = receipt_total r,
                       splitTotal = foldl (\<lambda>sum p. sum + pr_total p) 0 results,
                       sr_subtotal = subtotal,
                       sr_tax = tax r\<rparr>\<rparr>))))"

section \<open>Sequences of assignment operations\<close>

datatype action =
    DoSelect nat
  | DoAssign nat
  | DoIncrease nat nat
  | DoDecrease nat nat
  | DoUnassign nat nat

fun perform :: "state \<Rightarrow> action \<Rightarrow> state" where
  "perform st (DoSelect p) = selectParticipant p st"
| "perform st (DoAssign i) = assignItemToSelected i st"
| "perform st (DoIncrease i p) = increaseItemQuantity i p st"
| "perform st (DoDecrease i p) = decreaseItemQuantity i p st"
| "perform st (DoUnassign i p) = removeAssignment i p st"

definition run :: "state \<Rightarrow> action list \<Rightarrow> state" where
  "run st acts = foldl perform st acts"

text \<open>Every stored share is strictly positive.\<close>

definition positive_shares :: "item_assignments \<Rightarrow> bool" where
  "positive_shares ia \<longleftrightarrow> list_all (\<lambda>(i, a). list_all (\<lambda>(p, q). q > 0) a) ia"

text \<open>Every share of one item's object is strictly positive.\<close>

definition positive_inner :: "assignments \<Rightarrow> bool" where
  "positive_inner a \<longleftrightarrow> list_all (\<lambda>(p, q). q > 0) a"

text \<open>No share is stored: there is no item key, or every item's object is empty.\<close>

definition no_shares :: "item_assignments \<Rightarrow> bool" where
  "no_shares ia \<longleftrightarrow> list_all (\<lambda>(i, a). a = []) ia"

section \<open>Comparing the live preview and the settlement\<close>

text \<open>
  The name and the three amounts of a settlement entry, and the name and the three amounts
  of a preview entry after \<^verbatim>\<open>Math.round(x * 100) / 100\<close> on each amount.
\<close>

definition roundedTotal :: "ParticipantTotal \<Rightarrow> string \<times> real \<times> real \<times> real" where
  "roundedTotal t = (pt_name t, round2 (pt_total t), round2 (pt_itemsTotal t), round2 (pt_taxPortion t))"

definition resultTotals :: "ParticipantResult \<Rightarrow> string \<times> real \<times> real \<times> real" where
  "resultTotals e = (pr_name e, pr_total e, pr_itemsTotal e, pr_taxPortion e)"

section \<open>Shares held by listed participants\<close>


section \<open>Fully claimed receipts\<close>


section \<open>A state without one participant's shares\<close>





section \<open>The allocation in double precision\<close>

text \<open>
  The amounts of the program are IEEE-754 doubles, and the cents of the settlement depend
  on how each operation rounds. A finite double is a real \<open>m * 2 ^ e\<close> with a significand
  of 53 bits; an arithmetic operation returns the exact result rounded to the nearest
  double, a tie to the even significand. \<open>dbl\<close> is that rounding. The exponent is not
  bounded here: results beyond the largest double (infinity) and below the smallest normal
  double (subnormals) are outside the model, as is not-a-number.
\<close>

text \<open>The binary exponent of a non-zero real: \<open>2 ^ e \<le> \<bar>x\<bar> < 2 ^ (e + 1)\<close>.\<close>

definition binexp :: "real \<Rightarrow> int" where
  "binexp x = (if \<bar>x\<bar> \<ge> 1 then bitlen \<lfloor>\<bar>x\<bar>\<rfloor> - 1 else - bitlen (\<lceil>1 / \<bar>x\<bar>\<rceil> - 1))"

text \<open>Rounding to the nearest integer, a tie to the even one.\<close>

definition roundEven :: "real \<Rightarrow> int" where
  "roundEven m =
     (let f = \<lfloor>m\<rfloor>; d = m - real_of_int f
      in if d < 1 / 2 then f else if d > 1 / 2 then f + 1 else if even f then f else f + 1)"

definition dbl :: "real \<Rightarrow> real" where
  "dbl x =
     (if x = 0 then 0
      else (let q = 2 powi (binexp x - 52) in real_of_int (roundEven (x / q)) * q))"

text \<open>The operators \<^verbatim>\<open>+\<close>, \<^verbatim>\<open>*\<close> and \<^verbatim>\<open>/\<close> on doubles.\<close>

definition fadd :: "real \<Rightarrow> real \<Rightarrow> real" where
  "fadd x y = dbl (x + y)"

definition fmul :: "real \<Rightarrow> real \<Rightarrow> real" where
  "fmul x y = dbl (x * y)"

definition fdiv :: "real \<Rightarrow> real \<Rightarrow> real" where
  "fdiv x y = dbl (x / y)"

text \<open>
  The functions of the allocation once more, with every operation of the source rounded.
  A number held in the state is a double in the program: a field that holds the decimal
  2.01 here holds the double nearest to 2.01 there, so each number is read through \<open>dbl\<close>
  (which leaves a double as it is). \<^verbatim>\<open>Object.values\<close> lists the values of an object
  with integer keys in ascending order of the keys, which fixes the order of the additions.
\<close>

definition itemsSubtotalD :: "ReceiptItem list \<Rightarrow> real" where
  "itemsSubtotalD its =
     foldl (\<lambda>sum item. fadd sum (fmul (dbl (price item)) (dbl (quantity item)))) 0 its"

definition totalAssignedQtyD :: "assignments \<Rightarrow> real" where
  "totalAssignedQtyD a =
     foldl (\<lambda>sum qty. fadd sum qty) 0 (map (\<lambda>x. dbl (snd x)) (sort_key fst a))"

definition previewStepD :: "item_assignments \<Rightarrow> nat \<Rightarrow> real \<Rightarrow> nat \<times> ReceiptItem \<Rightarrow> real" where
  "previewStepD ia pIndex itemsTotal = (\<lambda>(itemIndex, item).
     (let a = assignmentsOr ia itemIndex;
          q = dbl (qtyOr0 a pIndex)
      in if q > 0 then
           (let totalItemCost = fmul (dbl (price item)) (dbl (quantity item));
                itemCost =
                  (if totalAssignedQtyD a > 0 then fmul (fdiv q (totalAssignedQtyD a)) totalItemCost
                   else 0)
            in fadd itemsTotal itemCost)
         else itemsTotal))"

definition taxShareD :: "real \<Rightarrow> real \<Rightarrow> real \<Rightarrow> real" where
  "taxShareD subtotal itemsTotal t = (if subtotal > 0 then fmul (fdiv itemsTotal subtotal) t else 0)"

definition participantTotalsD :: "state \<Rightarrow> ParticipantTotal list" where
  "participantTotalsD st =
     (case receipt st of
        None \<Rightarrow> []
      | Some r \<Rightarrow>
          (let subtotal = itemsSubtotalD (items r) in
           map (\<lambda>(pIndex, nm).
                  (let itemsTotal =
                         foldl (previewStepD (itemAssignments st) pIndex) 0 (enumerate 0 (items r));
                       taxPortion = taxShareD subtotal itemsTotal (dbl (tax r));
                       total = fadd itemsTotal taxPortion
                   in \<lparr>pt_name = trim nm, pt_total = total, pt_itemsTotal = itemsTotal,
                       pt_taxPortion = taxPortion\<rparr>))
               (enumerate 0 (participants st))))"

text \<open>
  \<^verbatim>\<open>Math.round(x * 100) / 100\<close>: the product is rounded to a double, \<^verbatim>\<open>Math.round\<close> takes
  the nearest integer of that double exactly, and the quotient is rounded to a double.
\<close>

definition round2D :: "real \<Rightarrow> real" where
  "round2D x = fdiv (real_of_int (Math_round (fmul x 100))) 100"

definition splitStepD ::
  "item_assignments \<Rightarrow> nat \<Rightarrow> real \<times> ResultItem list \<Rightarrow> nat \<times> ReceiptItem
     \<Rightarrow> real \<times> ResultItem list" where
  "splitStepD ia pIndex acc = (\<lambda>(itemIndex, item).
     (let a = assignmentsOr ia itemIndex;
          q = dbl (qtyOr0 a pIndex)
      in if q > 0 then
           (let sharedWith = length a;
                totalItemCost = fmul (dbl (price item)) (dbl (quantity item));
                itemCost =
                  (if totalAssignedQtyD a > 0 then fmul (fdiv q (totalAssignedQtyD a)) totalItemCost
                   else 0)
            in (fadd (fst acc) itemCost,
                snd acc @ [\<lparr>ri_name = name item, ri_quantity = q, ri_cost = itemCost,
                             ri_sharedWith = sharedWith\<rparr>]))
         else acc))"

definition splitEntryD :: "item_assignments \<Rightarrow> Receipt \<Rightarrow> nat \<times> string \<Rightarrow> ParticipantResult" where
  "splitEntryD ia r = (\<lambda>(pIndex, nm).
     (let subtotal = itemsSubtotalD (items r);
          acc = foldl (splitStepD ia pIndex) (0, []) (enumerate 0 (items r));
          itemsTotal = fst acc;
          taxPortion = taxShareD subtotal itemsTotal (dbl (tax r));
          total = fadd itemsTotal taxPortion
      in \<lparr>pr_name = trim nm, pr_total = round2D total, pr_itemsTotal = round2D itemsTotal,
          pr_taxPortion = round2D taxPortion, pr_items = snd acc\<rparr>))"

definition calculateSplitD :: "state \<Rightarrow> state" where
  "calculateSplitD st =
     (case receipt st of
        None \<Rightarrow> st
      | Some r \<Rightarrow>
          (let valid = validParticipants (participants st) in
           if length valid = 0 then st\<lparr>error := Some ''Please add at least one participant''\<rparr>
           else
             (let subtotal = itemsSubtotalD (items r);
                  results = map (splitEntryD (itemAssignments st) r) (enumerate 0 valid)
              in goToStep Results
                   (st\<lparr>splitResults := Some
                      \<lparr>sr_participants = results,
                       originalTotal = dbl (receipt_total r),
                       splitTotal = foldl (\<lambda>sum p. fadd sum (pr_total p)) 0 results,
                       sr_subtotal = subtotal,
                       sr_tax = dbl (tax r)\<rparr>\<rparr>))))"

text \<open>The name and the three amounts of a preview entry, each amount rounded to cents.\<close>

definition roundedTotalD :: "ParticipantTotal \<Rightarrow> string \<times> real \<times> real \<times> real" where
  "roundedTotalD t =
     (pt_name t, round2D (pt_total t), round2D (pt_itemsTotal t), round2D (pt_taxPortion t))"

section \<open>Example states\<close>

text \<open>One unclaimed item of 15, tax 5, stated total 20; the second participant slot is blank.\<close>

definition unclaimedExample :: state where
  "unclaimedExample =
     \<lparr>currentStep = Assign,
      receipt = Some \<lparr>items = [\<lparr>name = ''Soup'', quantity = 1, price = 15\<rparr>], tax = 5,
                      receipt_total = 20\<rparr>,
      participants = [''Ann'', '' '', ''Bob''],
      itemAssignments = [(0, [])],
      splitResults = None, error = None, selectedParticipantIndex = None\<rparr>"

text \<open>One item of 10.00, no tax, three participants with one share each.\<close>

definition driftExample :: state where
  "driftExample =
     \<lparr>currentStep = Assign,
      receipt = Some \<lparr>items = [\<lparr>name = ''Cake'', quantity = 1, price = 10\<rparr>], tax = 0,
                      receipt_total = 10\<rparr>,
      participants = [''Ann'', ''Bob'', ''Cy''],
      itemAssignments = [(0, [(0, 1), (1, 1), (2, 1)])],
      splitResults = None, error = None, selectedParticipantIndex = None\<rparr>"

text \<open>A freshly parsed receipt of two items: every item has an empty object of shares.\<close>

definition freshExample :: state where
  "freshExample =
     \<lparr>currentStep = Assign,
      receipt = Some \<lparr>items = [\<lparr>name = ''Tea'', quantity = 2, price = 3\<rparr>,
                               \<lparr>name = ''Rice'', quantity = 1, price = 4\<rparr>], tax = 1,
                      receipt_total = 11\<rparr>,
      participants = [''Ann'', ''Bob''],
      itemAssignments = [(0, []), (1, [])],
      splitResults = None, error = None, selectedParticipantIndex = None\<rparr>"

text \<open>The same receipt with shares on the first item; the first participant is selected.\<close>

definition assignExample :: state where
  "assignExample =
     \<lparr>currentStep = Assign,
      receipt = Some \<lparr>items = [\<lparr>name = ''Tea'', quantity = 2, price = 3\<rparr>,
                               \<lparr>name = ''Rice'', quantity = 1, price = 4\<rparr>], tax = 1,
                      receipt_total = 11\<rparr>,
      participants = [''Ann'', ''Bob''],
      itemAssignments = [(0, [(0, 1), (1, 3)]), (1, [])],
      splitResults = None, error = None, selectedParticipantIndex = Some 0\<rparr>"

text \<open>Two items, both claimed: the first by both participants, the second by one.\<close>

definition claimedExample :: state where
  "claimedExample =
     \<lparr>currentStep = Assign,
      receipt = Some \<lparr>items = [\<lparr>name = ''Tea'', quantity = 2, price = 3\<rparr>,
                               \<lparr>name = ''Rice'', quantity = 1, price = 4\<rparr>], tax = 1,
                      receipt_total = 11\<rparr>,
      participants = [''Ann'', ''Bob''],
      itemAssignments = [(0, [(0, 1), (1, 3)]), (1, [(1, 2)])],
      splitResults = None, error = None, selectedParticipantIndex = None\<rparr>"



text \<open>
  The first participant slot is blank; shares on the only item are stored under both
  indices.
\<close>

definition blankExample :: state where
  "blankExample =
     \<lparr>currentStep = Assign,
      receipt = Some \<lparr>items = [\<lparr>name = ''Cake'', quantity = 1, price = 8\<rparr>], tax = 0,
                      receipt_total = 8\<rparr>,
      participants = ['' '', ''Bob''],
      itemAssignments = [(0, [(0, 1), (1, 3)])],
      splitResults = None, error = None, selectedParticipantIndex = None\<rparr>"


section \<open>Folds as sums\<close>

lemma foldl_add_sum_list:
  "foldl (\<lambda>s x. s + f x) (acc::real) xs = acc + sum_list (map f xs)"
  by (induction xs arbitrary: acc) simp_all


lemma itemsSubtotal_sum: "itemsSubtotal its = sum_list (map (\<lambda>it. price it * quantity it) its)"
  using foldl_add_sum_list [of "\<lambda>it. price it * quantity it" 0 its] by (simp add: itemsSubtotal_def)



lemma fst_splitStep: "fst (splitStep ia p acc x) = previewStep ia p (fst acc) x"
  by (cases x) (simp add: splitStep_def previewStep_def Let_def)

lemma fst_foldl_splitStep:
  "fst (foldl (splitStep ia p) acc xs) = foldl (previewStep ia p) (fst acc) xs"
  by (induction xs arbitrary: acc) (simp_all add: fst_splitStep)




lemma map_enumerate_snd: "map (\<lambda>(i, x). g x) (enumerate n xs) = map g xs"
  by (induction xs arbitrary: n) simp_all

lemma round2_0: "round2 0 = 0"
  by (simp add: round2_def Math_round_def)

lemma splitEntry_rounds_preview:
  "splitEntry ia r (pIndex, nm) =
     (let itemsTotal = foldl (previewStep ia pIndex) 0 (enumerate 0 (items r));
          taxPortion = taxShare (itemsSubtotal (items r)) itemsTotal (tax r)
      in \<lparr>pr_name = trim nm, pr_total = round2 (itemsTotal + taxPortion),
          pr_itemsTotal = round2 itemsTotal, pr_taxPortion = round2 taxPortion,
          pr_items = snd (foldl (splitStep ia pIndex) (0, []) (enumerate 0 (items r)))\<rparr>)"
  by (simp add: splitEntry_def Let_def fst_foldl_splitStep)

lemma settlement_is_rounded_preview:
  assumes "receipt st = Some r"
  shows "map resultTotals (map (splitEntry (itemAssignments st) r) (enumerate 0 ps))
       = map roundedTotal (participantTotals (st\<lparr>participants := ps\<rparr>))"
  using assms
  by (auto simp: participantTotals_def Let_def resultTotals_def roundedTotal_def
      splitEntry_rounds_preview)

lemma calculateSplit_result:
  assumes "receipt st = Some r" and "validParticipants (participants st) \<noteq> []"
  shows "splitResults (calculateSplit st) = Some
      \<lparr>sr_participants =
         map (splitEntry (itemAssignments st) r) (enumerate 0 (validParticipants (participants st))),
       originalTotal = receipt_total r,
       splitTotal = sum_list (map pr_total
         (map (splitEntry (itemAssignments st) r) (enumerate 0 (validParticipants (participants st))))),
       sr_subtotal = itemsSubtotal (items r),
       sr_tax = tax r\<rparr>"
  using assms
    foldl_add_sum_list [of pr_total 0 "map (splitEntry (itemAssignments st) r)
      (enumerate 0 (validParticipants (participants st)))"]
  by (simp add: calculateSplit_def Let_def goToStep_def del: map_map)

lemma set_update_subset: "set (AList.update k v al) \<subseteq> insert (k, v) (set al)"
  by (induction al) auto

lemma set_delete_subset: "set (AList.delete k al) \<subseteq> set al"
  by (auto simp: AList.delete_eq)



lemma map_snd_enumerate_fun: "map (\<lambda>x. f (snd x)) (enumerate n xs) = map f xs"
  by (induction xs arbitrary: n) simp_all

lemma participantTotals_nth:
  assumes "receipt st = Some r" and "p < length (participants st)"
  shows "participantTotals st ! p =
     (let itemsTotal = foldl (previewStep (itemAssignments st) p) 0 (enumerate 0 (items r));
          taxPortion = taxShare (itemsSubtotal (items r)) itemsTotal (tax r)
      in \<lparr>pt_name = trim (participants st ! p), pt_total = itemsTotal + taxPortion,
          pt_itemsTotal = itemsTotal, pt_taxPortion = taxPortion\<rparr>)"
  using assms by (simp add: participantTotals_def Let_def nth_enumerate_eq)


section \<open>Claimed items\<close>












section \<open>Proportional allocation of an item\<close>











section \<open>Proportional tax\<close>








section \<open>Blank participant slots\<close>

lemma pr_name_splitEntry: "pr_name (splitEntry ia r x) = trim (snd x)"
  by (cases x) (simp add: splitEntry_def Let_def)

lemma settlement_names:
  "map pr_name (map (splitEntry ia r) (enumerate 0 xs)) = map trim xs"
proof -
  have "map pr_name (map (splitEntry ia r) (enumerate 0 xs))
      = map (\<lambda>x. trim (snd x)) (enumerate 0 xs)"
    by (simp add: pr_name_splitEntry)
  also have "\<dots> = map trim xs" by (rule map_snd_enumerate_fun)
  finally show ?thesis .
qed

lemma preview_names:
  assumes "receipt st = Some r"
  shows "map pt_name (participantTotals st) = map trim (participants st)"
proof -
  have "map pt_name (participantTotals st) = map (\<lambda>x. trim (snd x)) (enumerate 0 (participants st))"
    using assms by (simp add: participantTotals_def Let_def case_prod_unfold)
  also have "\<dots> = map trim (participants st)" by (rule map_snd_enumerate_fun)
  finally show ?thesis .
qed

lemma valid_names_nonblank: "list_all (\<lambda>n. n \<noteq> []) (map trim (validParticipants ps))"
  by (simp add: validParticipants_def list_all_iff)

lemma settlement_entries:
  assumes r: "receipt st = Some r" and v: "validParticipants (participants st) \<noteq> []"
  shows "\<exists>res. splitResults (calculateSplit st) = Some res
         \<and> map pr_name (sr_participants res) = map trim (validParticipants (participants st))
         \<and> list_all (\<lambda>e. pr_name e \<noteq> []) (sr_participants res)"
proof -
  let ?es = "map (splitEntry (itemAssignments st) r) (enumerate 0 (validParticipants (participants st)))"
  let ?res = "\<lparr>sr_participants = ?es, originalTotal = receipt_total r,
       splitTotal = sum_list (map pr_total ?es), sr_subtotal = itemsSubtotal (items r),
       sr_tax = tax r\<rparr>"
  have 1: "splitResults (calculateSplit st) = Some ?res"
    using r v by (rule calculateSplit_result)
  have 2: "map pr_name ?es = map trim (validParticipants (participants st))"
    by (rule settlement_names)
  have "list_all (\<lambda>n. n \<noteq> []) (map pr_name ?es)"
    unfolding 2 by (rule valid_names_nonblank)
  then have 3: "list_all (\<lambda>e. pr_name e \<noteq> []) ?es"
    by (simp add: list_all_iff)
  have "splitResults (calculateSplit st) = Some ?res
      \<and> map pr_name (sr_participants ?res) = map trim (validParticipants (participants st))
      \<and> list_all (\<lambda>e. pr_name e \<noteq> []) (sr_participants ?res)"
    using 1 2 3 by simp
  then show ?thesis by (rule exI)
qed

lemma valid_prefix:
  assumes j: "j < length ps" and p: "list_all (\<lambda>n. trim n \<noteq> []) (take (Suc j) ps)"
  shows "j < length (validParticipants ps)" and "validParticipants ps ! j = ps ! j"
proof -
  have "validParticipants ps
      = filter (\<lambda>n. trim n \<noteq> []) (take (Suc j) ps) @ filter (\<lambda>n. trim n \<noteq> []) (drop (Suc j) ps)"
    unfolding validParticipants_def filter_append [symmetric] by simp
  also have "filter (\<lambda>n. trim n \<noteq> []) (take (Suc j) ps) = take (Suc j) ps"
    using p by (simp add: list_all_iff)
  finally have v: "validParticipants ps
      = take (Suc j) ps @ filter (\<lambda>n. trim n \<noteq> []) (drop (Suc j) ps)" .
  have l: "j < length (take (Suc j) ps)" using j by simp
  show "j < length (validParticipants ps)" unfolding v using l by simp
  show "validParticipants ps ! j = ps ! j" unfolding v using l by (simp add: nth_append)
qed

lemma settlement_entry_original_index:
  assumes r: "receipt st = Some r" and j: "j < length (participants st)"
    and p: "list_all (\<lambda>n. trim n \<noteq> []) (take (Suc j) (participants st))"
  shows "\<exists>res. splitResults (calculateSplit st) = Some res
     \<and> j < length (sr_participants res)
     \<and> resultTotals (sr_participants res ! j) = roundedTotal (participantTotals st ! j)"
proof -
  let ?v = "validParticipants (participants st)"
  let ?es = "map (splitEntry (itemAssignments st) r) (enumerate 0 ?v)"
  let ?res = "\<lparr>sr_participants = ?es, originalTotal = receipt_total r,
       splitTotal = sum_list (map pr_total ?es), sr_subtotal = itemsSubtotal (items r),
       sr_tax = tax r\<rparr>"
  note vp = valid_prefix [OF j p]
  from vp(1) have ne: "?v \<noteq> []" by auto
  have 1: "splitResults (calculateSplit st) = Some ?res"
    using r ne by (rule calculateSplit_result)
  have 2: "j < length ?es" using vp(1) by simp
  have "?es ! j = splitEntry (itemAssignments st) r (j, participants st ! j)"
    using vp by (simp add: nth_enumerate_eq)
  then have 3: "resultTotals (?es ! j) = roundedTotal (participantTotals st ! j)"
    by (simp add: splitEntry_rounds_preview participantTotals_nth [OF r j] resultTotals_def
        roundedTotal_def Let_def)
  have "splitResults (calculateSplit st) = Some ?res
     \<and> j < length (sr_participants ?res)
     \<and> resultTotals (sr_participants ?res ! j) = roundedTotal (participantTotals st ! j)"
    using 1 2 3 by simp
  then show ?thesis by (rule exI)
qed

text \<open>
  C3 fails as stated. In the state below the first slot is blank and the item's shares are
  1 under index 0 and 3 under index 1. The live preview has an entry for the blank slot
  and gives it 2 of the 8; the settlement has one entry, for Bob, whose original index is
  1, and charges him the 2 that belong to the shares stored under index 0.
\<close>

theorem blank_slots_counterexample:
  "participants blankExample = ['' '', ''Bob'']
   \<and> trim '' '' = []
   \<and> itemAssignments blankExample = [(0, [(0, 1), (1, 3)])]
   \<and> participantTotals blankExample =
       [\<lparr>pt_name = [], pt_total = 2, pt_itemsTotal = 2, pt_taxPortion = 0\<rparr>,
        \<lparr>pt_name = ''Bob'', pt_total = 6, pt_itemsTotal = 6, pt_taxPortion = 0\<rparr>]
   \<and> splitResults (calculateSplit blankExample) = Some
        \<lparr>sr_participants =
           [\<lparr>pr_name = ''Bob'', pr_total = 2, pr_itemsTotal = 2, pr_taxPortion = 0,
             pr_items = [\<lparr>ri_name = ''Cake'', ri_quantity = 1, ri_cost = 2, ri_sharedWith = 2\<rparr>]\<rparr>],
         originalTotal = 8, splitTotal = 2, sr_subtotal = 8, sr_tax = 0\<rparr>"
  by (simp add: blankExample_def participantTotals_def previewStep_def calculateSplit_def
      goToStep_def validParticipants_def trim_def isSpace_def splitEntry_def splitStep_def
      assignmentsOr_def qtyOr0_def totalAssignedQty_def itemsSubtotal_def taxShare_def
      round2_def Math_round_def Let_def)

text \<open>
  C3, amended. The final settlement has entries only for the participants whose trimmed
  name is non-empty: one entry per such participant, in the order of the list and under
  the trimmed name, and none for a blank slot. A non-blank participant with no blank slot
  before it is looked up in the assignment map at its original index: its settlement
  entry carries the amounts of the live preview's entry at that index, rounded. The live
  preview does not filter: it has one entry per slot, blank slots included, and the entry
  of slot \<open>p\<close> is computed from the shares stored under \<open>p\<close>.
\<close>

theorem settlement_filters_preview_keeps_slots:
  "(receipt st = Some r \<and> validParticipants (participants st) \<noteq> [] \<longrightarrow>
      (\<exists>res. splitResults (calculateSplit st) = Some res
         \<and> map pr_name (sr_participants res) = map trim (validParticipants (participants st))
         \<and> list_all (\<lambda>e. pr_name e \<noteq> []) (sr_participants res)))
   \<and> (receipt st = Some r \<and> j < length (participants st)
        \<and> list_all (\<lambda>n. trim n \<noteq> []) (take (Suc j) (participants st)) \<longrightarrow>
        (\<exists>res. splitResults (calculateSplit st) = Some res
           \<and> j < length (sr_participants res)
           \<and> resultTotals (sr_participants res ! j) = roundedTotal (participantTotals st ! j)))
   \<and> (receipt st = Some r \<longrightarrow> map pt_name (participantTotals st) = map trim (participants st))
   \<and> (receipt st = Some r \<and> p < length (participants st) \<longrightarrow>
        participantTotals st ! p =
          (let itemsTotal = foldl (previewStep (itemAssignments st) p) 0 (enumerate 0 (items r));
               taxPortion = taxShare (itemsSubtotal (items r)) itemsTotal (tax r)
           in \<lparr>pt_name = trim (participants st ! p), pt_total = itemsTotal + taxPortion,
               pt_itemsTotal = itemsTotal, pt_taxPortion = taxPortion\<rparr>))"
proof (intro conjI impI)
  assume "receipt st = Some r \<and> validParticipants (participants st) \<noteq> []"
  then show "\<exists>res. splitResults (calculateSplit st) = Some res
         \<and> map pr_name (sr_participants res) = map trim (validParticipants (participants st))
         \<and> list_all (\<lambda>e. pr_name e \<noteq> []) (sr_participants res)"
    by (simp add: settlement_entries)
next
  assume "receipt st = Some r \<and> j < length (participants st)
        \<and> list_all (\<lambda>n. trim n \<noteq> []) (take (Suc j) (participants st))"
  then show "\<exists>res. splitResults (calculateSplit st) = Some res
           \<and> j < length (sr_participants res)
           \<and> resultTotals (sr_participants res ! j) = roundedTotal (participantTotals st ! j)"
    by (simp add: settlement_entry_original_index)
next
  assume "receipt st = Some r"
  then show "map pt_name (participantTotals st) = map trim (participants st)"
    by (rule preview_names)
next
  assume "receipt st = Some r \<and> p < length (participants st)"
  then show "participantTotals st ! p =
          (let itemsTotal = foldl (previewStep (itemAssignments st) p) 0 (enumerate 0 (items r));
               taxPortion = taxShare (itemsSubtotal (items r)) itemsTotal (tax r)
           in \<lparr>pt_name = trim (participants st ! p), pt_total = itemsTotal + taxPortion,
               pt_itemsTotal = itemsTotal, pt_taxPortion = taxPortion\<rparr>)"
    by (simp add: participantTotals_nth)
qed

theorem settlement_filters_preview_keeps_slots_witness:
  "receipt blankExample =
     Some \<lparr>items = [\<lparr>name = ''Cake'', quantity = 1, price = 8\<rparr>], tax = 0, receipt_total = 8\<rparr>
   \<and> validParticipants (participants blankExample) = [''Bob'']
   \<and> (\<exists>res. splitResults (calculateSplit blankExample) = Some res
         \<and> map pr_name (sr_participants res) = [''Bob''])
   \<and> map pt_name (participantTotals blankExample) = [[], ''Bob'']
   \<and> participantTotals blankExample ! 1
       = \<lparr>pt_name = ''Bob'', pt_total = 6, pt_itemsTotal = 6, pt_taxPortion = 0\<rparr>
   \<and> list_all (\<lambda>n. trim n \<noteq> []) (take (Suc 1) (participants claimedExample))
   \<and> (\<exists>res. splitResults (calculateSplit claimedExample) = Some res
         \<and> 1 < length (sr_participants res)
         \<and> resultTotals (sr_participants res ! 1) = roundedTotal (participantTotals claimedExample ! 1))"
proof -
  let ?b = "\<lparr>items = [\<lparr>name = ''Cake'', quantity = 1, price = 8\<rparr>], tax = 0, receipt_total = 8\<rparr>"
  let ?c = "\<lparr>items = [\<lparr>name = ''Tea'', quantity = 2, price = 3\<rparr>,
                    \<lparr>name = ''Rice'', quantity = 1, price = 4\<rparr>], tax = 1, receipt_total = 11\<rparr>"
  have rb: "receipt blankExample = Some ?b" by (simp add: blankExample_def)
  have vb: "validParticipants (participants blankExample) = [''Bob'']"
    by (simp add: blankExample_def validParticipants_def trim_def isSpace_def)
  have tb: "map trim (participants blankExample) = [[], ''Bob'']"
    by (simp add: blankExample_def trim_def isSpace_def)
  have lb: "1 < length (participants blankExample)" by (simp add: blankExample_def)
  have eb: "(let itemsTotal = foldl (previewStep (itemAssignments blankExample) 1) 0
                    (enumerate 0 (items ?b));
               taxPortion = taxShare (itemsSubtotal (items ?b)) itemsTotal (tax ?b)
           in \<lparr>pt_name = trim (participants blankExample ! 1), pt_total = itemsTotal + taxPortion,
               pt_itemsTotal = itemsTotal, pt_taxPortion = taxPortion\<rparr>)
       = \<lparr>pt_name = ''Bob'', pt_total = 6, pt_itemsTotal = 6, pt_taxPortion = 0\<rparr>"
    by (simp add: blankExample_def previewStep_def assignmentsOr_def qtyOr0_def
        totalAssignedQty_def itemsSubtotal_def taxShare_def trim_def isSpace_def Let_def)
  have rc: "receipt claimedExample = Some ?c" by (simp add: claimedExample_def)
  have lc: "1 < length (participants claimedExample)" by (simp add: claimedExample_def)
  have pc: "list_all (\<lambda>n. trim n \<noteq> []) (take (Suc 1) (participants claimedExample))"
    by (simp add: claimedExample_def trim_def isSpace_def)
  have tB: "trim ''Bob'' = ''Bob''" by (simp add: trim_def isSpace_def)
  show ?thesis
    using settlement_filters_preview_keeps_slots [of blankExample ?b 0 1]
      settlement_filters_preview_keeps_slots [of claimedExample ?c 1 0]
      rb vb tb lb eb rc lc pc tB
    by auto
qed

section \<open>Unclaimed items\<close>

lemma no_shares_assignmentsOr: "no_shares ia \<Longrightarrow> assignmentsOr ia i = []"
proof -
  assume n: "no_shares ia"
  show ?thesis
  proof (cases "map_of ia i")
    case None
    then show ?thesis by (simp add: assignmentsOr_def)
  next
    case (Some a)
    then have "(i, a) \<in> set ia" by (rule map_of_SomeD)
    with n have "a = []" by (auto simp: no_shares_def list_all_iff)
    with Some show ?thesis by (simp add: assignmentsOr_def)
  qed
qed

lemma unclaimed_item_adds_nothing:
  assumes "totalAssignedQty (assignmentsOr ia i) = 0"
  shows "previewStep ia p acc (i, item) = acc" and "fst (splitStep ia p sacc (i, item)) = fst sacc"
  using assms by (simp_all add: previewStep_def splitStep_def Let_def)

lemma splitEntry_unclaimed:
  assumes "assignmentsOr ia 0 = []" and "items r = [item]"
  shows "splitEntry ia r (pIndex, nm) =
     \<lparr>pr_name = trim nm, pr_total = 0, pr_itemsTotal = 0, pr_taxPortion = 0, pr_items = []\<rparr>"
  using assms
  by (simp add: splitEntry_def splitStep_def Let_def enumerate_simps qtyOr0_def taxShare_def round2_0)

lemma previewEntries_unclaimed:
  assumes "receipt st = Some r" and "assignmentsOr (itemAssignments st) 0 = []" and "items r = [item]"
  shows "participantTotals st =
     map (\<lambda>nm. \<lparr>pt_name = trim nm, pt_total = 0, pt_itemsTotal = 0, pt_taxPortion = 0\<rparr>)
       (participants st)"
proof -
  have "participantTotals st =
     map (\<lambda>(pIndex, nm). \<lparr>pt_name = trim nm, pt_total = 0, pt_itemsTotal = 0, pt_taxPortion = 0\<rparr>)
       (enumerate 0 (participants st))"
    using assms
    by (simp add: participantTotals_def previewStep_def Let_def qtyOr0_def taxShare_def)
  then show ?thesis by (simp add: map_enumerate_snd)
qed

text \<open>
  C4. An item whose stored shares sum to zero leaves every participant's running
  \<^verbatim>\<open>itemsTotal\<close> as it was, in the live preview and in the final settlement: its cost goes
  to nobody. In particular, for a receipt with the single item of quantity 1 and price 15,
  tax 5 and total 20, and an assignment map that stores no share, the settlement gives
  every (non-blank) participant \<^verbatim>\<open>itemsTotal\<close>, \<^verbatim>\<open>taxPortion\<close> and \<^verbatim>\<open>total\<close> 0, a
  \<^verbatim>\<open>splitTotal\<close> of 0 and an \<^verbatim>\<open>originalTotal\<close> of 20; the live preview gives every slot 0
  as well.
\<close>

theorem unclaimed_item_excluded:
  "(totalAssignedQty (assignmentsOr ia i) = 0 \<longrightarrow>
      previewStep ia p acc (i, item) = acc \<and> fst (splitStep ia p sacc (i, item)) = fst sacc)
   \<and> (receipt st = Some \<lparr>items = [\<lparr>name = nm, quantity = 1, price = 15\<rparr>], tax = 5, receipt_total = 20\<rparr>
      \<and> no_shares (itemAssignments st) \<and> validParticipants (participants st) \<noteq> [] \<longrightarrow>
      splitResults (calculateSplit st) = Some
        \<lparr>sr_participants =
           map (\<lambda>n. \<lparr>pr_name = trim n, pr_total = 0, pr_itemsTotal = 0, pr_taxPortion = 0,
                      pr_items = []\<rparr>) (validParticipants (participants st)),
         originalTotal = 20, splitTotal = 0, sr_subtotal = 15, sr_tax = 5\<rparr>
      \<and> participantTotals st =
          map (\<lambda>n. \<lparr>pt_name = trim n, pt_total = 0, pt_itemsTotal = 0, pt_taxPortion = 0\<rparr>)
            (participants st))"
proof (intro conjI impI)
  assume "totalAssignedQty (assignmentsOr ia i) = 0"
  then show "previewStep ia p acc (i, item) = acc" "fst (splitStep ia p sacc (i, item)) = fst sacc"
    by (rule unclaimed_item_adds_nothing)+
next
  let ?r = "\<lparr>items = [\<lparr>name = nm, quantity = 1, price = 15\<rparr>], tax = 5, receipt_total = 20\<rparr>"
  assume h: "receipt st = Some ?r \<and> no_shares (itemAssignments st)
     \<and> validParticipants (participants st) \<noteq> []"
  then have a: "assignmentsOr (itemAssignments st) 0 = []" by (simp add: no_shares_assignmentsOr)
  let ?zero = "\<lambda>n. \<lparr>pr_name = trim n, pr_total = 0, pr_itemsTotal = 0, pr_taxPortion = 0,
                      pr_items = []\<rparr>"
  have e: "map (splitEntry (itemAssignments st) ?r) (enumerate 0 xs) = map ?zero xs" for xs
  proof -
    have "splitEntry (itemAssignments st) ?r = (\<lambda>(pIndex, n). ?zero n)"
      using splitEntry_unclaimed [OF a, of ?r] by (auto simp: fun_eq_iff)
    then show ?thesis by (simp only: map_enumerate_snd)
  qed
  have s: "foldl (\<lambda>sum p. sum + pr_total p) 0 (map ?zero xs) = 0" for xs :: "string list"
    by (induction xs) simp_all
  show "splitResults (calculateSplit st) = Some
        \<lparr>sr_participants = map ?zero (validParticipants (participants st)),
         originalTotal = 20, splitTotal = 0, sr_subtotal = 15, sr_tax = 5\<rparr>"
    using h by (simp add: calculateSplit_def Let_def goToStep_def e s itemsSubtotal_def)
  show "participantTotals st =
          map (\<lambda>n. \<lparr>pt_name = trim n, pt_total = 0, pt_itemsTotal = 0, pt_taxPortion = 0\<rparr>)
            (participants st)"
    using h previewEntries_unclaimed [OF _ a, of ?r] by simp
qed


theorem unclaimed_item_excluded_witness:
  "totalAssignedQty (assignmentsOr [(0, [])] 0) = 0
   \<and> previewStep [(0, [])] 1 7 (0, \<lparr>name = ''Soup'', quantity = 1, price = 15\<rparr>) = 7
   \<and> receipt unclaimedExample =
       Some \<lparr>items = [\<lparr>name = ''Soup'', quantity = 1, price = 15\<rparr>], tax = 5, receipt_total = 20\<rparr>
   \<and> no_shares (itemAssignments unclaimedExample)
   \<and> validParticipants (participants unclaimedExample) = [''Ann'', ''Bob'']
   \<and> splitResults (calculateSplit unclaimedExample) = Some
        \<lparr>sr_participants =
           [\<lparr>pr_name = ''Ann'', pr_total = 0, pr_itemsTotal = 0, pr_taxPortion = 0, pr_items = []\<rparr>,
            \<lparr>pr_name = ''Bob'', pr_total = 0, pr_itemsTotal = 0, pr_taxPortion = 0, pr_items = []\<rparr>],
         originalTotal = 20, splitTotal = 0, sr_subtotal = 15, sr_tax = 5\<rparr>"
  using unclaimed_item_excluded [of "[(0, [])]" 0 1 7 "\<lparr>name = ''Soup'', quantity = 1, price = 15\<rparr>"
      "(7, [])" unclaimedExample "''Soup''"]
  by (simp add: unclaimedExample_def assignmentsOr_def totalAssignedQty_def no_shares_def
      validParticipants_def trim_def isSpace_def)

section \<open>Rounding in the settlement\<close>

lemma dbl_0: "dbl 0 = 0"
  by (simp add: dbl_def)

lemma fmul_0: "fmul x 0 = 0" and fmul_0_left: "fmul 0 x = 0" and fdiv_0: "fdiv 0 x = 0" and fadd_0_0: "fadd 0 0 = 0"
  by (simp_all add: fmul_def fdiv_def fadd_def dbl_0)

lemma round2D_0: "round2D 0 = 0"
  by (simp add: round2D_def fmul_0_left Math_round_def fdiv_0)

lemma drift_doubles: "dbl 1 = 1" "dbl 10 = 10"
  by code_simp+

lemma drift_shares: "fadd 0 1 = 1" "fadd 1 1 = 2" "fadd 2 1 = 3"
  by code_simp+

lemma drift_cost: "fmul 10 1 = 10" "fadd 0 10 = 10"
  "fdiv 1 3 = 6004799503160661 / 18014398509481984"
  "fmul (6004799503160661 / 18014398509481984) 10 = 3752999689475413 / 1125899906842624"
  "fadd 0 (3752999689475413 / 1125899906842624) = 3752999689475413 / 1125899906842624"
  "fadd (3752999689475413 / 1125899906842624) 0 = 3752999689475413 / 1125899906842624"
  by code_simp+

lemma drift_cents:
  "fmul (3752999689475413 / 1125899906842624) 100 = 5864062014805333 / 17592186044416"
  "fdiv 333 100 = 1874623344892969 / 562949953421312"
  "dbl (333 / 100) = 1874623344892969 / 562949953421312"
  "dbl (999 / 100) = 5623870034678907 / 562949953421312"
  by code_simp+

lemma drift_sum:
  "fadd 0 (1874623344892969 / 562949953421312) = 1874623344892969 / 562949953421312"
  "fadd (1874623344892969 / 562949953421312) (1874623344892969 / 562949953421312)
     = 1874623344892969 / 281474976710656"
  "fadd (1874623344892969 / 281474976710656) (1874623344892969 / 562949953421312)
     = 5623870034678907 / 562949953421312"
  by code_simp+

lemma drift_total: "a < b \<Longrightarrow> b < c \<Longrightarrow> totalAssignedQtyD [(a, 1), (b, 1), (c, 1)] = 3"
  by (simp add: totalAssignedQtyD_def drift_doubles drift_shares)

lemma drift_round: "round2D (3752999689475413 / 1125899906842624) = 1874623344892969 / 562949953421312"
  by (simp add: round2D_def drift_cents Math_round_def)

lemma drift_entry:
  assumes "p < 3"
  shows "splitEntryD [(0, [(0, 1), (Suc 0, 1), (2, 1)])]
       \<lparr>items = [\<lparr>name = ''Cake'', quantity = 1, price = 10\<rparr>], tax = 0, receipt_total = 10\<rparr> (p, nm)
     = \<lparr>pr_name = trim nm, pr_total = 1874623344892969 / 562949953421312,
        pr_itemsTotal = 1874623344892969 / 562949953421312, pr_taxPortion = 0,
        pr_items = [\<lparr>ri_name = ''Cake'', ri_quantity = 1,
                     ri_cost = 3752999689475413 / 1125899906842624, ri_sharedWith = 3\<rparr>]\<rparr>"
proof -
  have t: "totalAssignedQtyD [(0, 1), (Suc 0, 1), (2, 1)] = 3"
    by (rule drift_total) simp_all
  from assms have "p = 0 \<or> p = Suc 0 \<or> p = 2" by arith
  then show ?thesis
    by (auto simp: splitEntryD_def splitStepD_def Let_def assignmentsOr_def qtyOr0_def
        itemsSubtotalD_def taxShareD_def t dbl_0 drift_doubles drift_cost fmul_0 round2D_0
        drift_round)
qed

lemma fst_splitStepD: "fst (splitStepD ia p acc x) = previewStepD ia p (fst acc) x"
  by (cases x) (simp add: splitStepD_def previewStepD_def Let_def)

lemma fst_foldl_splitStepD:
  "fst (foldl (splitStepD ia p) acc xs) = foldl (previewStepD ia p) (fst acc) xs"
  by (induction xs arbitrary: acc) (simp_all add: fst_splitStepD)

lemma splitEntryD_rounds_preview:
  "splitEntryD ia r (pIndex, nm) =
     (let itemsTotal = foldl (previewStepD ia pIndex) 0 (enumerate 0 (items r));
          taxPortion = taxShareD (itemsSubtotalD (items r)) itemsTotal (dbl (tax r))
      in \<lparr>pr_name = trim nm, pr_total = round2D (fadd itemsTotal taxPortion),
          pr_itemsTotal = round2D itemsTotal, pr_taxPortion = round2D taxPortion,
          pr_items = snd (foldl (splitStepD ia pIndex) (0, []) (enumerate 0 (items r)))\<rparr>)"
  by (simp add: splitEntryD_def Let_def fst_foldl_splitStepD)

lemma settlementD_is_rounded_preview:
  assumes "receipt st = Some r"
  shows "map resultTotals (map (splitEntryD (itemAssignments st) r) (enumerate 0 ps))
       = map roundedTotalD (participantTotalsD (st\<lparr>participants := ps\<rparr>))"
  using assms
  by (auto simp: participantTotalsD_def Let_def resultTotals_def roundedTotalD_def
      splitEntryD_rounds_preview)

lemma foldl_fadd_map:
  "foldl (\<lambda>sum p. fadd sum (f p)) acc xs = foldl fadd acc (map f xs)"
  by (induction xs arbitrary: acc) simp_all

lemma calculateSplitD_result:
  assumes "receipt st = Some r" and "validParticipants (participants st) \<noteq> []"
  shows "splitResults (calculateSplitD st) = Some
      \<lparr>sr_participants =
         map (splitEntryD (itemAssignments st) r) (enumerate 0 (validParticipants (participants st))),
       originalTotal = dbl (receipt_total r),
       splitTotal = foldl fadd 0 (map pr_total
         (map (splitEntryD (itemAssignments st) r) (enumerate 0 (validParticipants (participants st))))),
       sr_subtotal = itemsSubtotalD (items r),
       sr_tax = dbl (tax r)\<rparr>"
  using assms foldl_fadd_map [of pr_total 0 "map (splitEntryD (itemAssignments st) r)
      (enumerate 0 (validParticipants (participants st)))"]
  by (simp add: calculateSplitD_def Let_def goToStep_def del: map_map)

lemma Math_round_nearest: "\<bar>real_of_int (Math_round y) - y\<bar> \<le> 1 / 2"
  unfolding Math_round_def by linarith

lemma round2D_unfold: "round2D x = dbl (real_of_int (Math_round (dbl (x * 100))) / 100)"
  by (simp add: round2D_def fmul_def fdiv_def)

text \<open>
  Where the exact product lies on the other side of a half cent than its double, the
  program's cents are those of the double: \<^verbatim>\<open>(13 / 24) * 27\<close> is just below 14.625 as a
  double and rounds to 14.62, and a half of 2.01 rounds to 1.00.
\<close>

lemma cents_follow_the_double:
  "round2D (fmul (fdiv 13 24) 27) = dbl (1462 / 100)"
  "round2D (fmul (fdiv 1 2) (dbl (201 / 100))) = 1"
proof -
  have a: "fdiv 13 24 = 4878899596318037 / 9007199254740992"
    "fmul (4878899596318037 / 9007199254740992) 27 = 8233143068786687 / 562949953421312"
    "fmul (8233143068786687 / 562949953421312) 100 = 6432143022489599 / 4398046511104"
    "fdiv 1462 100 = dbl (1462 / 100)"
    by code_simp+
  show "round2D (fmul (fdiv 13 24) 27) = dbl (1462 / 100)"
    by (simp add: round2D_def a Math_round_def)
  have b: "fdiv 1 2 = 1 / 2" "dbl (201 / 100) = 1131529406376837 / 562949953421312"
    "fmul (1 / 2) (1131529406376837 / 562949953421312) = 1131529406376837 / 1125899906842624"
    "fmul (1131529406376837 / 1125899906842624) 100 = 7072058789855231 / 70368744177664"
    "fdiv 100 100 = 1"
    by code_simp+
  show "round2D (fmul (fdiv 1 2) (dbl (201 / 100))) = 1"
    by (simp add: round2D_def b Math_round_def)
qed

text \<open>
  C5. When the settlement is computed (a receipt is loaded and some name is non-blank),
  the \<^verbatim>\<open>total\<close>, \<^verbatim>\<open>itemsTotal\<close> and \<^verbatim>\<open>taxPortion\<close> of each entry are the unrounded doubles
  (those the live preview computes on the list of the non-blank names), each rounded on
  its own by \<^verbatim>\<open>Math.round(x * 100) / 100\<close>, and \<^verbatim>\<open>splitTotal\<close> is the sum, in order, of the
  rounded totals. The rounding is to two decimals: the result is the double nearest to \<open>n / 100\<close>
  for the integer \<open>n\<close> nearest to the double of \<open>x * 100\<close>. For the item of 10.00 with no
  tax and three participants holding one share each, every entry's total is the double
  3.33 and \<^verbatim>\<open>splitTotal\<close> is the double 9.99, while \<^verbatim>\<open>originalTotal\<close> is 10.
\<close>

theorem settlement_rounds_each_field:
  "(receipt st = Some r \<and> validParticipants (participants st) \<noteq> [] \<longrightarrow>
      (\<exists>res. splitResults (calculateSplitD st) = Some res
         \<and> map resultTotals (sr_participants res)
             = map roundedTotalD
                 (participantTotalsD (st\<lparr>participants := validParticipants (participants st)\<rparr>))
         \<and> splitTotal res = foldl fadd 0 (map pr_total (sr_participants res))))
   \<and> round2D x = dbl (real_of_int (Math_round (dbl (x * 100))) / 100)
   \<and> \<bar>real_of_int (Math_round y) - y\<bar> \<le> 1 / 2
   \<and> splitResults (calculateSplitD driftExample) = Some
      \<lparr>sr_participants =
         [\<lparr>pr_name = ''Ann'', pr_total = dbl (333 / 100), pr_itemsTotal = dbl (333 / 100),
           pr_taxPortion = 0,
           pr_items = [\<lparr>ri_name = ''Cake'', ri_quantity = 1, ri_cost = fmul (fdiv 1 3) 10,
                        ri_sharedWith = 3\<rparr>]\<rparr>,
          \<lparr>pr_name = ''Bob'', pr_total = dbl (333 / 100), pr_itemsTotal = dbl (333 / 100),
           pr_taxPortion = 0,
           pr_items = [\<lparr>ri_name = ''Cake'', ri_quantity = 1, ri_cost = fmul (fdiv 1 3) 10,
                        ri_sharedWith = 3\<rparr>]\<rparr>,
          \<lparr>pr_name = ''Cy'', pr_total = dbl (333 / 100), pr_itemsTotal = dbl (333 / 100),
           pr_taxPortion = 0,
           pr_items = [\<lparr>ri_name = ''Cake'', ri_quantity = 1, ri_cost = fmul (fdiv 1 3) 10,
                        ri_sharedWith = 3\<rparr>]\<rparr>],
       originalTotal = 10, splitTotal = dbl (999 / 100), sr_subtotal = 10, sr_tax = 0\<rparr>
   \<and> dbl (999 / 100) \<noteq> 10"
proof (intro conjI impI)
  assume h: "receipt st = Some r \<and> validParticipants (participants st) \<noteq> []"
  let ?es = "map (splitEntryD (itemAssignments st) r) (enumerate 0 (validParticipants (participants st)))"
  let ?res = "\<lparr>sr_participants = ?es, originalTotal = dbl (receipt_total r),
       splitTotal = foldl fadd 0 (map pr_total ?es), sr_subtotal = itemsSubtotalD (items r),
       sr_tax = dbl (tax r)\<rparr>"
  have "splitResults (calculateSplitD st) = Some ?res"
    using h by (simp add: calculateSplitD_result)
  moreover have "map resultTotals (sr_participants ?res)
      = map roundedTotalD
          (participantTotalsD (st\<lparr>participants := validParticipants (participants st)\<rparr>))"
    using h settlementD_is_rounded_preview [of st r "validParticipants (participants st)"]
    by (simp del: map_map)
  moreover have "splitTotal ?res = foldl fadd 0 (map pr_total (sr_participants ?res))"
    by (simp del: map_map)
  ultimately show "\<exists>res. splitResults (calculateSplitD st) = Some res
         \<and> map resultTotals (sr_participants res)
             = map roundedTotalD
                 (participantTotalsD (st\<lparr>participants := validParticipants (participants st)\<rparr>))
         \<and> splitTotal res = foldl fadd 0 (map pr_total (sr_participants res))"
    by blast
next
  show "round2D x = dbl (real_of_int (Math_round (dbl (x * 100))) / 100)"
    by (rule round2D_unfold)
next
  show "\<bar>real_of_int (Math_round y) - y\<bar> \<le> 1 / 2" by (rule Math_round_nearest)
next
  show "splitResults (calculateSplitD driftExample) = Some
      \<lparr>sr_participants =
         [\<lparr>pr_name = ''Ann'', pr_total = dbl (333 / 100), pr_itemsTotal = dbl (333 / 100),
           pr_taxPortion = 0,
           pr_items = [\<lparr>ri_name = ''Cake'', ri_quantity = 1, ri_cost = fmul (fdiv 1 3) 10,
                        ri_sharedWith = 3\<rparr>]\<rparr>,
          \<lparr>pr_name = ''Bob'', pr_total = dbl (333 / 100), pr_itemsTotal = dbl (333 / 100),
           pr_taxPortion = 0,
           pr_items = [\<lparr>ri_name = ''Cake'', ri_quantity = 1, ri_cost = fmul (fdiv 1 3) 10,
                        ri_sharedWith = 3\<rparr>]\<rparr>,
          \<lparr>pr_name = ''Cy'', pr_total = dbl (333 / 100), pr_itemsTotal = dbl (333 / 100),
           pr_taxPortion = 0,
           pr_items = [\<lparr>ri_name = ''Cake'', ri_quantity = 1, ri_cost = fmul (fdiv 1 3) 10,
                        ri_sharedWith = 3\<rparr>]\<rparr>],
       originalTotal = 10, splitTotal = dbl (999 / 100), sr_subtotal = 10, sr_tax = 0\<rparr>"
    by (simp add: driftExample_def calculateSplitD_def Let_def goToStep_def validParticipants_def
        trim_def isSpace_def drift_entry itemsSubtotalD_def dbl_0 drift_doubles drift_cost
        drift_cents drift_sum)
next
  show "dbl (999 / 100) \<noteq> 10" by (simp add: drift_cents)
qed

theorem settlement_rounds_each_field_witness:
  "receipt driftExample =
     Some \<lparr>items = [\<lparr>name = ''Cake'', quantity = 1, price = 10\<rparr>], tax = 0, receipt_total = 10\<rparr>
   \<and> validParticipants (participants driftExample) = [''Ann'', ''Bob'', ''Cy'']
   \<and> (\<exists>res. splitResults (calculateSplitD driftExample) = Some res
         \<and> map resultTotals (sr_participants res)
             = map roundedTotalD
                 (participantTotalsD
                    (driftExample\<lparr>participants := validParticipants (participants driftExample)\<rparr>))
         \<and> splitTotal res = foldl fadd 0 (map pr_total (sr_participants res)))"
proof -
  have r: "receipt driftExample =
     Some \<lparr>items = [\<lparr>name = ''Cake'', quantity = 1, price = 10\<rparr>], tax = 0, receipt_total = 10\<rparr>"
    by (simp add: driftExample_def)
  have v: "validParticipants (participants driftExample) = [''Ann'', ''Bob'', ''Cy'']"
    by (simp add: driftExample_def validParticipants_def trim_def isSpace_def)
  from v have n: "validParticipants (participants driftExample) \<noteq> []" by simp
  show ?thesis
    using settlement_rounds_each_field [of driftExample
        "\<lparr>items = [\<lparr>name = ''Cake'', quantity = 1, price = 10\<rparr>], tax = 0, receipt_total = 10\<rparr>" 0 0]
      r v n
    by blast
qed

section \<open>Stored shares are positive\<close>

lemma positive_shares_iff:
  "positive_shares ia \<longleftrightarrow> (\<forall>(i, a) \<in> set ia. positive_inner a)"
  by (auto simp: positive_shares_def positive_inner_def list_all_iff)

lemma positive_inner_update:
  "positive_inner a \<Longrightarrow> v > 0 \<Longrightarrow> positive_inner (AList.update p v a)"
  using set_update_subset [of p v a] by (auto simp: positive_inner_def list_all_iff)

lemma positive_inner_delete: "positive_inner a \<Longrightarrow> positive_inner (AList.delete p a)"
  using set_delete_subset [of p a] by (auto simp: positive_inner_def list_all_iff)

lemma positive_shares_update:
  "positive_shares ia \<Longrightarrow> positive_inner a \<Longrightarrow> positive_shares (AList.update i a ia)"
  using set_update_subset [of i a ia] by (auto simp: positive_shares_iff)

lemma positive_shares_lookup:
  "positive_shares ia \<Longrightarrow> map_of ia i = Some a \<Longrightarrow> positive_inner a"
  by (auto simp: positive_shares_iff dest: map_of_SomeD)

lemma positive_inner_Nil: "positive_inner []"
  by (simp add: positive_inner_def)

lemma positive_shares_assignmentsOr: "positive_shares ia \<Longrightarrow> positive_inner (assignmentsOr ia i)"
  by (auto simp: assignmentsOr_def positive_inner_Nil positive_shares_lookup split: option.splits)

lemma positive_shares_ensureItem: "positive_shares ia \<Longrightarrow> positive_shares (ensureItem i ia)"
  by (auto simp: ensureItem_def positive_shares_update positive_inner_Nil split: option.splits)

lemma qtyOr0_nonneg: "positive_inner a \<Longrightarrow> 0 \<le> qtyOr0 a p"
  by (auto simp: qtyOr0_def positive_inner_def list_all_iff split: option.splits dest!: map_of_SomeD)

lemma positive_assign:
  "positive_shares (itemAssignments st) \<Longrightarrow> positive_shares (itemAssignments (assignItemToSelected i st))"
  by (auto simp: assignItemToSelected_def Let_def positive_shares_ensureItem positive_shares_update
      positive_inner_update positive_shares_assignmentsOr split: option.splits)

lemma positive_increase:
  assumes "positive_shares (itemAssignments st)"
  shows "positive_shares (itemAssignments (increaseItemQuantity i p st))"
proof -
  let ?ia = "ensureItem i (itemAssignments st)"
  have ia: "positive_shares ?ia" using assms by (rule positive_shares_ensureItem)
  then have a: "positive_inner (assignmentsOr ?ia i)" by (rule positive_shares_assignmentsOr)
  then have "0 < qtyOr0 (assignmentsOr ?ia i) p + 1" using qtyOr0_nonneg [OF a, of p] by simp
  with a have "positive_inner (AList.update p (qtyOr0 (assignmentsOr ?ia i) p + 1) (assignmentsOr ?ia i))"
    by (rule positive_inner_update)
  with ia show ?thesis by (simp add: increaseItemQuantity_def Let_def positive_shares_update)
qed

lemma positive_decrease:
  assumes "positive_shares (itemAssignments st)"
  shows "positive_shares (itemAssignments (decreaseItemQuantity i p st))"
proof (cases "map_of (itemAssignments st) i")
  case None
  then show ?thesis using assms by (simp add: decreaseItemQuantity_def)
next
  case (Some a)
  with assms have a: "positive_inner a" by (rule positive_shares_lookup)
  show ?thesis
    using assms Some a
    by (simp add: decreaseItemQuantity_def Let_def positive_shares_update positive_inner_update
        positive_inner_delete)
qed

lemma positive_unassign:
  assumes "positive_shares (itemAssignments st)"
  shows "positive_shares (itemAssignments (removeAssignment i p st))"
proof (cases "map_of (itemAssignments st) i")
  case None
  then show ?thesis using assms by (simp add: removeAssignment_def)
next
  case (Some a)
  with assms have a: "positive_inner a" by (rule positive_shares_lookup)
  show ?thesis
    using assms Some a
    by (simp add: removeAssignment_def positive_shares_update positive_inner_delete)
qed

lemma positive_perform:
  "positive_shares (itemAssignments st) \<Longrightarrow> positive_shares (itemAssignments (perform st act))"
  by (cases act)
    (simp_all add: selectParticipant_def positive_assign positive_increase positive_decrease
      positive_unassign)

lemma positive_run:
  "positive_shares (itemAssignments st) \<Longrightarrow> positive_shares (itemAssignments (run st acts))"
  unfolding run_def
  by (induction acts arbitrary: st) (simp_all add: positive_perform)

lemma no_shares_positive: "no_shares ia \<Longrightarrow> positive_shares ia"
  by (auto simp: no_shares_def positive_shares_def list_all_iff)

lemma decrease_at_one:
  assumes "map_of (itemAssignments st) i = Some a" and "map_of a p = Some 1"
  shows "map_of (assignmentsOr (itemAssignments (decreaseItemQuantity i p st)) i) p = None"
  using assms
  by (simp add: decreaseItemQuantity_def Let_def qtyOr0_def assignmentsOr_def update_conv' delete_conv')

lemma decrease_above_one:
  assumes "map_of (itemAssignments st) i = Some a" and "map_of a p = Some q" and "q > 1"
  shows "map_of (assignmentsOr (itemAssignments (decreaseItemQuantity i p st)) i) p = Some (q - 1)"
  using assms
  by (simp add: decreaseItemQuantity_def Let_def qtyOr0_def assignmentsOr_def update_conv')

text \<open>
  C6. From a state whose assignment map stores no share, any finite sequence of select,
  assign, increase, decrease and unassign operations leads to a state in which every
  stored share is strictly positive: a zero is never stored. A decrease on an entry whose
  share is 1 deletes the entry, so that reading the item's object at that participant
  gives absent; a decrease on an entry whose share \<open>q\<close> is greater than 1 stores \<open>q - 1\<close>.
\<close>

theorem stored_shares_stay_positive:
  "(no_shares (itemAssignments st) \<longrightarrow> positive_shares (itemAssignments (run st acts)))
   \<and> (map_of (itemAssignments st) i = Some a \<and> map_of a p = Some 1 \<longrightarrow>
        map_of (assignmentsOr (itemAssignments (decreaseItemQuantity i p st)) i) p = None)
   \<and> (map_of (itemAssignments st) i = Some a \<and> map_of a p = Some q \<and> q > 1 \<longrightarrow>
        map_of (assignmentsOr (itemAssignments (decreaseItemQuantity i p st)) i) p = Some (q - 1))"
  using positive_run [of st acts] no_shares_positive [of "itemAssignments st"]
    decrease_at_one [of st i a p] decrease_above_one [of st i a p q]
  by blast

theorem stored_shares_stay_positive_witness:
  "no_shares (itemAssignments freshExample)
   \<and> itemAssignments (run freshExample
        [DoSelect 0, DoAssign 0, DoIncrease 0 0, DoIncrease 1 1, DoDecrease 1 1, DoDecrease 0 0,
         DoSelect 1, DoAssign 0, DoAssign 0, DoUnassign 0 1, DoIncrease 0 1])
       = [(0, [(0, 1), (1, 1)]), (1, [])]
   \<and> positive_shares (itemAssignments (run freshExample
        [DoSelect 0, DoAssign 0, DoIncrease 0 0, DoIncrease 1 1, DoDecrease 1 1, DoDecrease 0 0,
         DoSelect 1, DoAssign 0, DoAssign 0, DoUnassign 0 1, DoIncrease 0 1]))
   \<and> map_of (itemAssignments assignExample) 0 = Some [(0, 1), (1, 3)]
   \<and> map_of (assignmentsOr (itemAssignments (decreaseItemQuantity 0 0 assignExample)) 0) 0 = None
   \<and> map_of (assignmentsOr (itemAssignments (decreaseItemQuantity 0 1 assignExample)) 0) 1 = Some 2"
  using stored_shares_stay_positive [of freshExample
        "[DoSelect 0, DoAssign 0, DoIncrease 0 0, DoIncrease 1 1, DoDecrease 1 1, DoDecrease 0 0,
         DoSelect 1, DoAssign 0, DoAssign 0, DoUnassign 0 1, DoIncrease 0 1]" 0 "[]" 0 0]
    stored_shares_stay_positive [of assignExample "[]" 0 "[(0, 1), (1, 3)]" 0 0]
    stored_shares_stay_positive [of assignExample "[]" 0 "[(0, 1), (1, 3)]" 1 3]
  by (simp add: freshExample_def assignExample_def no_shares_def run_def selectParticipant_def
      assignItemToSelected_def increaseItemQuantity_def decreaseItemQuantity_def
      removeAssignment_def ensureItem_def assignmentsOr_def qtyOr0_def falsy_def Let_def)

section \<open>Assign and unassign\<close>

lemma assign_existing:
  assumes "selectedParticipantIndex st = Some p" and "map_of (itemAssignments st) i = Some a"
    and "map_of a p = Some q" and "q > 0"
  shows "assignItemToSelected i st = st"
  using assms by (simp add: assignItemToSelected_def ensureItem_def assignmentsOr_def falsy_def)

lemma assign_twice: "assignItemToSelected i (assignItemToSelected i st) = assignItemToSelected i st"
proof (cases "selectedParticipantIndex st")
  case None
  then show ?thesis by (simp add: assignItemToSelected_def)
next
  case (Some p)
  show ?thesis
  proof (cases "falsy (map_of (assignmentsOr (ensureItem i (itemAssignments st)) i) p)")
    case True
    let ?st = "assignItemToSelected i st"
    let ?a = "AList.update p 1 (assignmentsOr (ensureItem i (itemAssignments st)) i)"
    have s: "selectedParticipantIndex ?st = Some p"
      using Some by (simp add: assignItemToSelected_def Let_def)
    have "map_of (itemAssignments ?st) i = Some ?a"
      using Some True by (simp add: assignItemToSelected_def Let_def update_conv')
    moreover have "map_of ?a p = Some 1" by (simp add: update_conv')
    ultimately show ?thesis using assign_existing [OF s, of i ?a 1] by simp
  next
    case False
    let ?ia = "ensureItem i (itemAssignments st)"
    have e: "ensureItem i ?ia = ?ia"
      by (auto simp: ensureItem_def update_conv' split: option.splits)
    show ?thesis using Some False by (simp add: assignItemToSelected_def Let_def e)
  qed
qed

lemma unassign_absent:
  assumes "map_of (assignmentsOr (itemAssignments st) i) p = None"
  shows "removeAssignment i p st = st"
proof (cases "map_of (itemAssignments st) i")
  case None
  then show ?thesis by (simp add: removeAssignment_def)
next
  case (Some a)
  with assms have "map_of a p = None" by (simp add: assignmentsOr_def)
  then have "p \<notin> fst ` set a" by (simp add: map_of_eq_None_iff)
  then have "AList.delete p a = a" by simp
  moreover have "AList.update i a (itemAssignments st) = itemAssignments st"
    using Some by (rule update_triv)
  ultimately show ?thesis using Some by (simp add: removeAssignment_def)
qed

lemma assign_fresh:
  assumes "selectedParticipantIndex st = Some p"
    and "map_of (assignmentsOr (itemAssignments st) i) p = None"
  shows "map_of (assignmentsOr (itemAssignments (assignItemToSelected i st)) i) p = Some 1"
proof -
  have "assignmentsOr (ensureItem i (itemAssignments st)) i = assignmentsOr (itemAssignments st) i"
    by (auto simp: ensureItem_def assignmentsOr_def update_conv' split: option.splits)
  then show ?thesis
    using assms by (simp add: assignItemToSelected_def Let_def falsy_def assignmentsOr_def update_conv')
qed

text \<open>
  C7. With a participant selected, \<^verbatim>\<open>assignItemToSelected\<close> on an item where that
  participant already holds a positive share changes nothing (the share and the whole state
  stay as they are), and in every state a second assign equals the first. Unassigning a
  pair with no stored entry changes nothing. An assign on a pair with no stored entry
  stores the share 1.
\<close>

theorem assign_idempotent_unassign_noop:
  "(selectedParticipantIndex st = Some p \<and> map_of (itemAssignments st) i = Some a
      \<and> map_of a p = Some q \<and> q > 0 \<longrightarrow> assignItemToSelected i st = st)
   \<and> assignItemToSelected i (assignItemToSelected i st) = assignItemToSelected i st
   \<and> (map_of (assignmentsOr (itemAssignments st) i) p = None \<longrightarrow> removeAssignment i p st = st)
   \<and> (selectedParticipantIndex st = Some p \<and> map_of (assignmentsOr (itemAssignments st) i) p = None
        \<longrightarrow> map_of (assignmentsOr (itemAssignments (assignItemToSelected i st)) i) p = Some 1)"
  using assign_existing [of st p i a q] assign_twice [of i st] unassign_absent [of st i p]
    assign_fresh [of st p i]
  by blast

theorem assign_idempotent_unassign_noop_witness:
  "selectedParticipantIndex assignExample = Some 0
   \<and> map_of (itemAssignments assignExample) 0 = Some [(0, 1), (1, 3)]
   \<and> assignItemToSelected 0 assignExample = assignExample
   \<and> map_of (assignmentsOr (itemAssignments assignExample) 1) 0 = None
   \<and> removeAssignment 1 0 assignExample = assignExample
   \<and> map_of (assignmentsOr (itemAssignments (assignItemToSelected 1 assignExample)) 1) 0 = Some 1"
  using assign_idempotent_unassign_noop [of assignExample 0 0 "[(0, 1), (1, 3)]" 1]
    assign_idempotent_unassign_noop [of assignExample 0 1 "[]" 1]
  by (simp add: assignExample_def assignmentsOr_def)

section \<open>Receipt setters\<close>

lemma quantity_rejected:
  "v = NaN \<or> (\<exists>x. v = Num x \<and> x \<le> 0) \<Longrightarrow> updateItemQuantity index v st = st"
  by (auto simp: updateItemQuantity_def parseFloatString_def split: option.splits)

lemma price_rejected:
  "v = NaN \<or> (\<exists>x. v = Num x \<and> x < 0) \<Longrightarrow> updateItemPrice index v st = st"
  by (auto simp: updateItemPrice_def parseFloatString_def split: option.splits)

lemma tax_rejected:
  "v = NaN \<or> (\<exists>x. v = Num x \<and> x < 0) \<Longrightarrow> updateTax v st = st"
  by (auto simp: updateTax_def parseFloatString_def split: option.splits)

lemma quantity_accepted:
  assumes "receipt st = Some r" and "index < length (items r)" and "x > 0"
  shows "updateItemQuantity index (Num x) st =
     st\<lparr>receipt := Some
       \<lparr>items = (items r)[index := (items r ! index)\<lparr>quantity := x\<rparr>],
        tax = tax r,
        receipt_total =
          sum_list (map (\<lambda>it. quantity it * price it)
            ((items r)[index := (items r ! index)\<lparr>quantity := x\<rparr>])) + tax r\<rparr>\<rparr>"
  using assms
  by (simp add: updateItemQuantity_def parseFloatString_def recalculateTotal_def itemsSubtotal_sum
      mult.commute)

lemma price_accepted:
  assumes "receipt st = Some r" and "index < length (items r)" and "x \<ge> 0"
  shows "updateItemPrice index (Num x) st =
     st\<lparr>receipt := Some
       \<lparr>items = (items r)[index := (items r ! index)\<lparr>price := x\<rparr>],
        tax = tax r,
        receipt_total =
          sum_list (map (\<lambda>it. quantity it * price it)
            ((items r)[index := (items r ! index)\<lparr>price := x\<rparr>])) + tax r\<rparr>\<rparr>"
  using assms
  by (simp add: updateItemPrice_def parseFloatString_def recalculateTotal_def itemsSubtotal_sum
      mult.commute)

lemma tax_accepted:
  assumes "receipt st = Some r" and "x \<ge> 0"
  shows "updateTax (Num x) st =
     st\<lparr>receipt := Some
       \<lparr>items = items r, tax = x,
        receipt_total = sum_list (map (\<lambda>it. quantity it * price it) (items r)) + x\<rparr>\<rparr>"
  using assms
  by (simp add: updateTax_def parseFloatString_def recalculateTotal_def itemsSubtotal_sum
      mult.commute)

text \<open>
  C8. The quantity setter returns the state unchanged when the parsed value is not a number
  or is a number \<open>\<le> 0\<close> (at every index); on a positive value and an index inside the
  item list it stores the quantity in that item and sets the receipt's total to the sum of
  \<open>quantity * price\<close> over all items plus the tax, leaving everything else as it was. The
  price setter and the tax setter return the state unchanged on not-a-number and on a
  number \<open>< 0\<close>, and on a value \<open>\<ge> 0\<close> store it and recompute the total by the same
  formula.
\<close>

theorem setters_reject_or_recompute:
  "(v = NaN \<or> (\<exists>z. v = Num z \<and> z \<le> 0) \<longrightarrow> updateItemQuantity index v st = st)
   \<and> (receipt st = Some r \<and> index < length (items r) \<and> x > 0 \<longrightarrow>
        updateItemQuantity index (Num x) st =
          st\<lparr>receipt := Some
            \<lparr>items = (items r)[index := (items r ! index)\<lparr>quantity := x\<rparr>],
             tax = tax r,
             receipt_total =
               sum_list (map (\<lambda>it. quantity it * price it)
                 ((items r)[index := (items r ! index)\<lparr>quantity := x\<rparr>])) + tax r\<rparr>\<rparr>)
   \<and> (w = NaN \<or> (\<exists>z. w = Num z \<and> z < 0) \<longrightarrow>
        updateItemPrice index w st = st \<and> updateTax w st = st)
   \<and> (receipt st = Some r \<and> index < length (items r) \<and> y \<ge> 0 \<longrightarrow>
        updateItemPrice index (Num y) st =
          st\<lparr>receipt := Some
            \<lparr>items = (items r)[index := (items r ! index)\<lparr>price := y\<rparr>],
             tax = tax r,
             receipt_total =
               sum_list (map (\<lambda>it. quantity it * price it)
                 ((items r)[index := (items r ! index)\<lparr>price := y\<rparr>])) + tax r\<rparr>\<rparr>)
   \<and> (receipt st = Some r \<and> y \<ge> 0 \<longrightarrow>
        updateTax (Num y) st =
          st\<lparr>receipt := Some
            \<lparr>items = items r, tax = y,
             receipt_total = sum_list (map (\<lambda>it. quantity it * price it) (items r)) + y\<rparr>\<rparr>)"
  using quantity_rejected [of v index st] quantity_accepted [of st r index x]
    price_rejected [of w index st] tax_rejected [of w st]
    price_accepted [of st r index y] tax_accepted [of st r y]
  by blast

theorem setters_reject_or_recompute_witness:
  "updateItemQuantity 1 NaN assignExample = assignExample
   \<and> updateItemQuantity 1 (Num 0) assignExample = assignExample
   \<and> receipt (updateItemQuantity 1 (Num 5) assignExample) =
       Some \<lparr>items = [\<lparr>name = ''Tea'', quantity = 2, price = 3\<rparr>,
                      \<lparr>name = ''Rice'', quantity = 5, price = 4\<rparr>], tax = 1, receipt_total = 27\<rparr>
   \<and> updateItemPrice 1 (Num (- 1)) assignExample = assignExample
   \<and> updateTax (Num (- 1)) assignExample = assignExample
   \<and> receipt (updateItemPrice 1 (Num 0) assignExample) =
       Some \<lparr>items = [\<lparr>name = ''Tea'', quantity = 2, price = 3\<rparr>,
                      \<lparr>name = ''Rice'', quantity = 1, price = 0\<rparr>], tax = 1, receipt_total = 7\<rparr>
   \<and> receipt (updateTax (Num 0) assignExample) =
       Some \<lparr>items = [\<lparr>name = ''Tea'', quantity = 2, price = 3\<rparr>,
                      \<lparr>name = ''Rice'', quantity = 1, price = 4\<rparr>], tax = 0, receipt_total = 10\<rparr>"
proof -
  let ?r = "\<lparr>items = [\<lparr>name = ''Tea'', quantity = 2, price = 3\<rparr>,
                      \<lparr>name = ''Rice'', quantity = 1, price = 4\<rparr>], tax = 1, receipt_total = 11\<rparr>"
  have r: "receipt assignExample = Some ?r" by (simp add: assignExample_def)
  have i: "1 < length (items ?r)" by simp
  show ?thesis
    using setters_reject_or_recompute [of NaN 1 assignExample ?r 5 "Num (- 1)" 0]
      setters_reject_or_recompute [of "Num 0" 1 assignExample ?r 5 "Num (- 1)" 0] r i
    by simp
qed

section \<open>Removing a participant\<close>




































section \<open>Removing the last participant\<close>

text \<open>
  C10. With exactly one entry in the participant list, \<^verbatim>\<open>removeParticipant(index)\<close> changes
  nothing, for every index: neither the participant list nor the assignment map (nor any
  other part of the state).
\<close>

theorem removeParticipant_single_noop:
  "length (participants st) = 1 \<Longrightarrow> removeParticipant index st = st"
  by (simp add: removeParticipant_def)

theorem removeParticipant_single_noop_witness:
  "length (participants
     \<lparr>currentStep = Participants, receipt = None, participants = [''Ann''],
      itemAssignments = [(0, [(0, 2)])], splitResults = None, error = None,
      selectedParticipantIndex = None\<rparr>) = 1
   \<and> removeParticipant 0
     \<lparr>currentStep = Participants, receipt = None, participants = [''Ann''],
      itemAssignments = [(0, [(0, 2)])], splitResults = None, error = None,
      selectedParticipantIndex = None\<rparr>
   = \<lparr>currentStep = Participants, receipt = None, participants = [''Ann''],
      itemAssignments = [(0, [(0, 2)])], splitResults = None, error = None,
      selectedParticipantIndex = None\<rparr>"
  using removeParticipant_single_noop [of
     "\<lparr>currentStep = Participants, receipt = None, participants = [''Ann''],
      itemAssignments = [(0, [(0, 2)])], splitResults = None, error = None,
      selectedParticipantIndex = None\<rparr>" 0]
  by simp

end
